theory Spec2Isabelle
  imports Complex_Main "HOL-Library.AList" "HOL-Library.Multiset"
begin

section \<open>Tables\<close>

text \<open>
  The data fusion layer of AgriSense (\<^verbatim>\<open>backend/models/datafusion.py\<close>) keeps pandas
  tables in a dictionary and answers queries over them. A table is modelled row by row:
  the column labels in their order, the dtype of every column, and the rows, each a list
  of cells aligned with the labels. Python floats are read as real numbers (rounding is
  not modelled); \<open>Null\<close> stands for both \<^verbatim>\<open>None\<close> and \<^verbatim>\<open>NaN\<close>/\<^verbatim>\<open>NaT\<close>. The row index
  of pandas is not modelled: no operation of the layer reads it.
\<close>

datatype cell = Num real | Str string | Time int | Null

datatype dtype = Int64 | Float64 | Bool | Object | Datetime64

record dataframe =
  columns :: "string list"
  dtypes :: "dtype list"
  rows :: "cell list list"

text \<open>\<^verbatim>\<open>pd.DataFrame()\<close>: no columns and no rows.\<close>

definition DataFrame :: dataframe where
  "DataFrame = \<lparr>columns = [], dtypes = [], rows = []\<rparr>"

text \<open>\<^verbatim>\<open>df.empty\<close>: one of the two axes has length zero.\<close>

definition df_empty :: "dataframe \<Rightarrow> bool" where
  "df_empty df \<longleftrightarrow> columns df = [] \<or> rows df = []"

text \<open>The cell of a row under a label (the first column carrying that label).\<close>

definition cell_at :: "string list \<Rightarrow> cell list \<Rightarrow> string \<Rightarrow> cell" where
  "cell_at cols r c = (case map_of (zip cols r) c of Some v \<Rightarrow> v | None \<Rightarrow> Null)"

definition dtype_at :: "dataframe \<Rightarrow> string \<Rightarrow> dtype" where
  "dtype_at df c = (case map_of (zip (columns df) (dtypes df)) c of Some t \<Rightarrow> t | None \<Rightarrow> Object)"

text \<open>
  Exceptions are values. The first four are raised by the libraries the code calls; the
  last four are the error kinds that the specification names.
\<close>

datatype error =
    KeyError string
  | IndexError
  | TypeError
  | ServiceError string
  | NoJoinKeyError
  | InvalidGroupColumnsError
  | InsufficientSamplesError
  | GenerationServiceError

text \<open>\<^verbatim>\<open>df[col]\<close> raises \<^verbatim>\<open>KeyError\<close> on an unknown label.\<close>

definition column :: "dataframe \<Rightarrow> string \<Rightarrow> error + cell list" where
  "column df c =
     (if c \<in> set (columns df) then Inr (map (\<lambda>r. cell_at (columns df) r c) (rows df))
      else Inl (KeyError c))"

text \<open>\<^verbatim>\<open>df[cols]\<close> for labels that all exist: the listed columns, in the listed order.\<close>

definition select :: "string list \<Rightarrow> dataframe \<Rightarrow> dataframe" where
  "select cs df =
     \<lparr>columns = cs,
      dtypes = map (dtype_at df) cs,
      rows = map (\<lambda>r. map (cell_at (columns df) r) cs) (rows df)\<rparr>"

text \<open>
  \<^verbatim>\<open>df.head(n)\<close>: the first \<open>n\<close> rows, and for a negative \<open>n\<close> all rows but the
  last \<open>-n\<close>.
\<close>

definition head :: "int \<Rightarrow> dataframe \<Rightarrow> dataframe" where
  "head n df =
     (if 0 \<le> n then df\<lparr>rows := take (nat n) (rows df)\<rparr>
      else df\<lparr>rows := take (length (rows df) - nat (- n)) (rows df)\<rparr>)"

text \<open>
  A filter value is a scalar or a sequence (\<^verbatim>\<open>isinstance(value, (list, tuple))\<close>).
  \<^verbatim>\<open>df[col] == value\<close> is never true on a null cell or for a null value;
  \<^verbatim>\<open>df[col].isin(values)\<close> is membership.
\<close>

datatype fval = Scalar cell | Sequence "cell list"

fun matches :: "fval \<Rightarrow> cell \<Rightarrow> bool" where
  "matches (Sequence vs) c = (c \<in> set vs)"
| "matches (Scalar v) c = (c \<noteq> Null \<and> v \<noteq> Null \<and> c = v)"

text \<open>\<^verbatim>\<open>df[mask]\<close> with the mask computed from one column.\<close>

definition keep_rows :: "string \<Rightarrow> fval \<Rightarrow> dataframe \<Rightarrow> dataframe" where
  "keep_rows c v df = df\<lparr>rows := filter (\<lambda>r. matches v (cell_at (columns df) r c)) (rows df)\<rparr>"

section \<open>The registry\<close>

text \<open>
  \<^verbatim>\<open>DataFusion\<close> holds two dictionaries keyed by the dataset name. A Python dictionary
  keeps its keys distinct and in insertion order; assigning to a present key replaces the
  value in place, assigning to a new key appends. That is \<open>AList.update\<close> on an
  association list, and \<open>map_of\<close> is the lookup. (The optional SQL engine of the class is
  used by \<^verbatim>\<open>execute_sql\<close> only and is left out.)
\<close>

record dataset_meta =
  description :: string
  meta_columns :: "string list"
  key_columns :: "string list"
  time_column :: "string option"
  shape :: "nat \<times> nat"
  meta_dtypes :: "(string \<times> dtype) list"

record datafusion =
  datasets :: "(string \<times> dataframe) list"
  metadata :: "(string \<times> dataset_meta) list"

definition init :: datafusion where
  "init = \<lparr>datasets = [], metadata = []\<rparr>"

definition register_dataset ::
  "datafusion \<Rightarrow> string \<Rightarrow> dataframe \<Rightarrow> string \<Rightarrow> string list option \<Rightarrow> string option
     \<Rightarrow> datafusion" where
  "register_dataset self name df descr keys tcol =
     \<lparr>datasets = AList.update name df (datasets self),
      metadata = AList.update name
        \<lparr>description = descr,
         meta_columns = columns df,
         key_columns = (case keys of None \<Rightarrow> [] | Some ks \<Rightarrow> ks),
         time_column = tcol,
         shape = (length (rows df), length (columns df)),
         meta_dtypes = zip (columns df) (dtypes df)\<rparr> (metadata self)\<rparr>"

definition get_dataset :: "datafusion \<Rightarrow> string \<Rightarrow> dataframe option" where
  "get_dataset self name = map_of (datasets self) name"

text \<open>\<^verbatim>\<open>list_datasets\<close>: one record per entry of the metadata dictionary, in its order.\<close>

definition list_datasets :: "datafusion \<Rightarrow> (string \<times> dataset_meta) list" where
  "list_datasets self = metadata self"

text \<open>
  A registration request: name, table, description, key columns, time column.
  \<open>run\<close> replays a sequence of requests on a fresh \<^verbatim>\<open>DataFusion()\<close>.
\<close>

type_synonym registration = "string \<times> dataframe \<times> string \<times> string list option \<times> string option"

fun register :: "datafusion \<Rightarrow> registration \<Rightarrow> datafusion" where
  "register self (name, df, descr, keys, tcol) = register_dataset self name df descr keys tcol"

definition run :: "registration list \<Rightarrow> datafusion" where
  "run calls = foldl register init calls"

fun meta_of :: "registration \<Rightarrow> dataset_meta" where
  "meta_of (name, df, descr, keys, tcol) =
     \<lparr>description = descr,
      meta_columns = columns df,
      key_columns = (case keys of None \<Rightarrow> [] | Some ks \<Rightarrow> ks),
      time_column = tcol,
      shape = (length (rows df), length (columns df)),
      meta_dtypes = zip (columns df) (dtypes df)\<rparr>"

section \<open>Filter, project, limit\<close>

text \<open>
  The loop of \<^verbatim>\<open>query_dataset\<close> over \<^verbatim>\<open>filters.items()\<close>: an entry whose column is not
  in the table is skipped.
\<close>

fun apply_filters :: "(string \<times> fval) list \<Rightarrow> dataframe \<Rightarrow> dataframe" where
  "apply_filters [] df = df"
| "apply_filters ((c, v) # fs) df =
     apply_filters fs (if c \<in> set (columns df) then keep_rows c v df else df)"

definition query_dataset ::
  "datafusion \<Rightarrow> string \<Rightarrow> (string \<times> fval) list option \<Rightarrow> string list option \<Rightarrow> int option
     \<Rightarrow> error + dataframe" where
  "query_dataset self dataset_name filters cols limit =
     (case map_of (datasets self) dataset_name of
        None \<Rightarrow> Inr DataFrame
      | Some d \<Rightarrow>
          let df1 = (case filters of None \<Rightarrow> d | Some fs \<Rightarrow> apply_filters fs d);
              df2 = (case cols of
                       None \<Rightarrow> df1
                     | Some cs \<Rightarrow>
                         if cs = [] then df1
                         else let available_cols = filter (\<lambda>c. c \<in> set (columns df1)) cs
                              in if available_cols = [] then df1 else select available_cols df1);
              df3 = (case limit of
                       None \<Rightarrow> df2
                     | Some n \<Rightarrow> if n = 0 then df2 else head n df2)
          in Inr df3)"

section \<open>The pandas routines the layer calls\<close>

text \<open>
  A Python float: a real number or \<^verbatim>\<open>NaN\<close>.
\<close>

datatype pyfloat = Float real | NaN

text \<open>
  \<^verbatim>\<open>pd.merge\<close>, \<^verbatim>\<open>groupby(...).agg(...).reset_index()\<close>, \<^verbatim>\<open>Series.corr\<close>,
  \<^verbatim>\<open>pd.to_datetime(..., errors='coerce')\<close>, the iteration over \<^verbatim>\<open>df.groupby(col)\<close> and
  \<^verbatim>\<open>str\<close> on a cell are routines of pandas and Python, not of this repository. They are
  parameters of the model: every theorem below holds for whatever these routines return
  or raise.
\<close>

record pandas =
  pd_merge :: "dataframe \<Rightarrow> dataframe \<Rightarrow> string list \<Rightarrow> string \<Rightarrow> error + dataframe"
  pd_groupby_agg :: "dataframe \<Rightarrow> string list \<Rightarrow> (string \<times> string) list \<Rightarrow> error + dataframe"
  pd_corr :: "cell list \<Rightarrow> cell list \<Rightarrow> error + pyfloat"
  pd_to_datetime :: "cell list \<Rightarrow> error + cell list"
  pd_groupby :: "dataframe \<Rightarrow> string \<Rightarrow> error + (cell \<times> dataframe) list"
  pd_str :: "cell \<Rightarrow> string"

section \<open>Join\<close>

text \<open>
  \<^verbatim>\<open>find_common_columns\<close> returns \<^verbatim>\<open>list(cols1.intersection(cols2))\<close>. Python fixes no
  order for the elements of a set; the model lists them in the order of the first table.
\<close>

definition find_common_columns :: "datafusion \<Rightarrow> string \<Rightarrow> string \<Rightarrow> string list" where
  "find_common_columns self dataset1 dataset2 =
     (case map_of (datasets self) dataset1 of
        None \<Rightarrow> []
      | Some a \<Rightarrow>
          (case map_of (datasets self) dataset2 of
             None \<Rightarrow> []
           | Some b \<Rightarrow> filter (\<lambda>c. c \<in> set (columns b)) (remdups (columns a))))"

text \<open>The \<^verbatim>\<open>try\<close> block of \<^verbatim>\<open>merge_datasets\<close>: any exception of the merge gives the empty table.\<close>

definition try_merge :: "pandas \<Rightarrow> dataframe \<Rightarrow> dataframe \<Rightarrow> string list \<Rightarrow> string \<Rightarrow> dataframe" where
  "try_merge L left_df right_df on how =
     (case pd_merge L left_df right_df on how of Inr merged \<Rightarrow> merged | Inl e \<Rightarrow> DataFrame)"

definition merge_datasets ::
  "pandas \<Rightarrow> datafusion \<Rightarrow> string \<Rightarrow> string \<Rightarrow> string list option \<Rightarrow> string
     \<Rightarrow> error + dataframe" where
  "merge_datasets L self left_name right_name on how =
     (case map_of (datasets self) left_name of
        None \<Rightarrow> Inr DataFrame
      | Some left_df \<Rightarrow>
          (case map_of (datasets self) right_name of
             None \<Rightarrow> Inr DataFrame
           | Some right_df \<Rightarrow>
               (case on of
                  None \<Rightarrow>
                    let common = find_common_columns self left_name right_name
                    in if common = [] then Inr DataFrame
                       else Inr (try_merge L left_df right_df common how)
                | Some keys \<Rightarrow> Inr (try_merge L left_df right_df keys how))))"

section \<open>Aggregation\<close>

definition aggregate_data ::
  "pandas \<Rightarrow> datafusion \<Rightarrow> string \<Rightarrow> string list \<Rightarrow> (string \<times> string) list
     \<Rightarrow> (string \<times> fval) list option \<Rightarrow> error + dataframe" where
  "aggregate_data L self dataset_name group_by agg_funcs filters =
     (case query_dataset self dataset_name filters None None of
        Inl e \<Rightarrow> Inl e
      | Inr df \<Rightarrow>
          if df_empty df then Inr df
          else
            let valid_group_cols = filter (\<lambda>c. c \<in> set (columns df)) group_by
            in if valid_group_cols = [] then Inr DataFrame
               else (case pd_groupby_agg L df valid_group_cols agg_funcs of
                       Inr result \<Rightarrow> Inr result
                     | Inl e \<Rightarrow> Inr DataFrame))"

section \<open>Correlation\<close>

text \<open>\<^verbatim>\<open>df[[c1, c2]]\<close> raises \<^verbatim>\<open>KeyError\<close> when a label is missing.\<close>

definition select_checked :: "string list \<Rightarrow> dataframe \<Rightarrow> error + dataframe" where
  "select_checked cs df =
     (case filter (\<lambda>c. c \<notin> set (columns df)) cs of
        [] \<Rightarrow> Inr (select cs df)
      | c # _ \<Rightarrow> Inl (KeyError c))"

text \<open>\<^verbatim>\<open>df.dropna()\<close>: the rows without a null cell.\<close>

definition dropna :: "dataframe \<Rightarrow> dataframe" where
  "dropna df = df\<lparr>rows := filter (\<lambda>r. Null \<notin> set r) (rows df)\<rparr>"

text \<open>The name of a value column after the join: as given, or with the side's suffix.\<close>

definition resolve :: "dataframe \<Rightarrow> string \<Rightarrow> string \<Rightarrow> string" where
  "resolve merged value_col suffix =
     (if value_col \<in> set (columns merged) then value_col else value_col @ suffix)"

text \<open>The \<^verbatim>\<open>try\<close> block of \<^verbatim>\<open>calculate_correlation\<close>, with its exceptions as \<open>Inl\<close>.\<close>

definition correlation_of :: "pandas \<Rightarrow> dataframe \<Rightarrow> string \<Rightarrow> string \<Rightarrow> error + pyfloat" where
  "correlation_of L merged value_col1 value_col2 =
     (let col1 = resolve merged value_col1 ''_left'';
          col2 = resolve merged value_col2 ''_right''
      in case select_checked [col1, col2] merged of
           Inl e \<Rightarrow> Inl e
         | Inr sel \<Rightarrow>
             let merged_clean = dropna sel
             in if length (rows merged_clean) < 2 then Inr (Float 0)
                else (case column merged_clean col1 of
                        Inl e \<Rightarrow> Inl e
                      | Inr xs \<Rightarrow>
                          (case column merged_clean col2 of
                             Inl e \<Rightarrow> Inl e
                           | Inr ys \<Rightarrow> pd_corr L xs ys)))"

definition calculate_correlation ::
  "pandas \<Rightarrow> datafusion \<Rightarrow> string \<Rightarrow> string \<Rightarrow> string \<Rightarrow> string \<Rightarrow> string list
     \<Rightarrow> error + (pyfloat \<times> dataframe)" where
  "calculate_correlation L self dataset1_name dataset2_name value_col1 value_col2 merge_on =
     (case merge_datasets L self dataset1_name dataset2_name (Some merge_on) ''inner'' of
        Inl e \<Rightarrow> Inl e
      | Inr merged \<Rightarrow>
          if df_empty merged then Inr (Float 0, DataFrame)
          else (case correlation_of L merged value_col1 value_col2 of
                  Inr correlation \<Rightarrow> Inr (correlation, merged)
                | Inl e \<Rightarrow> Inr (Float 0, merged)))"

text \<open>
  The paired observations of two value columns: the rows of the joined table in which
  neither of the two cells is null.
\<close>

definition paired_observations :: "dataframe \<Rightarrow> string \<Rightarrow> string \<Rightarrow> cell list list" where
  "paired_observations merged col1 col2 =
     filter (\<lambda>r. cell_at (columns merged) r col1 \<noteq> Null \<and> cell_at (columns merged) r col2 \<noteq> Null)
       (rows merged)"

section \<open>Time series\<close>

text \<open>
  The summary of a series of values, as the dictionary literal of
  \<^verbatim>\<open>time_series_analysis\<close> computes it (the same literal serves the overall analysis and
  every group). \<^verbatim>\<open>mean\<close>, \<^verbatim>\<open>std\<close> (sample deviation, \<^verbatim>\<open>ddof=1\<close>), \<^verbatim>\<open>min\<close> and \<^verbatim>\<open>max\<close>
  are \<^verbatim>\<open>NaN\<close> where pandas has too few values; on values that are not numbers
  \<^verbatim>\<open>float(values.mean())\<close> raises \<^verbatim>\<open>TypeError\<close> (pandas 2), and on an empty series
  \<^verbatim>\<open>values.iloc[-1]\<close> raises \<^verbatim>\<open>IndexError\<close>.
\<close>

record statistics =
  mean :: pyfloat
  std :: pyfloat
  min_value :: pyfloat
  max_value :: pyfloat
  trend :: string

fun num_of :: "cell \<Rightarrow> real option" where
  "num_of (Num x) = Some x"
| "num_of c = None"





text \<open>\<^verbatim>\<open>series.dropna()\<close>.\<close>

definition dropna_series :: "cell list \<Rightarrow> cell list" where
  "dropna_series cs = filter (\<lambda>c. c \<noteq> Null) cs"











datatype analysis = Statistics statistics | Groups "(string \<times> statistics) list"

record ts_result =
  dataset :: string
  time_start :: string
  time_end :: string
  data_points :: nat
  analysis :: analysis




section \<open>Retrieval and answer generation\<close>

text \<open>
  \<^verbatim>\<open>backend/models/llm_rag.py\<close>. The sentence embedder, the Chroma vector store and the
  Hugging Face inference client are external services; they are parameters of the model,
  each returning its value or the exception it raises. \<open>'c\<close> is the type of collection
  handles and \<open>'e\<close> the type of embeddings. A response of the index to one query is four
  parallel lists (\<^verbatim>\<open>results['documents'][0]\<close> and so on); distances and the threshold are
  Python floats, read as reals.
\<close>

type_synonym meta = "(string \<times> string) list"

record query_results =
  documents :: "string list"
  metadatas :: "meta list"
  distances :: "real list"
  ids :: "string list"

record ('c, 'e) services =
  embedder_encode :: "string list \<Rightarrow> error + 'e list"
  get_or_create_collection :: "string \<Rightarrow> error + 'c"
  collection_query :: "'c \<Rightarrow> 'e \<Rightarrow> int \<Rightarrow> meta option \<Rightarrow> error + query_results"
  text_generation :: "string \<Rightarrow> int \<Rightarrow> real \<Rightarrow> error + string"

record 'c rag_pipeline =
  top_k :: int
  similarity_threshold :: real
  collections :: "(string \<times> 'c) list"

definition no_results :: query_results where
  "no_results = \<lparr>documents = [], metadatas = [], distances = [], ids = []\<rparr>"

text \<open>
  \<^verbatim>\<open>create_collection(name)\<close> with \<^verbatim>\<open>recreate=False\<close>, the only way \<^verbatim>\<open>query\<close> calls it:
  the handle is stored in \<^verbatim>\<open>self.collections\<close>; an exception is raised again.
\<close>

definition create_collection ::
  "('c, 'e) services \<Rightarrow> 'c rag_pipeline \<Rightarrow> string \<Rightarrow> error + ('c \<times> 'c rag_pipeline)" where
  "create_collection S self collection_name =
     (case get_or_create_collection S collection_name of
        Inl e \<Rightarrow> Inl e
      | Inr collection \<Rightarrow>
          Inr (collection,
               self\<lparr>collections := AList.update collection_name collection (collections self)\<rparr>))"

text \<open>
  The loop of \<^verbatim>\<open>query\<close> over \<^verbatim>\<open>enumerate(results['distances'][0])\<close>. Reading position
  \<open>i\<close> of a list that is too short raises \<^verbatim>\<open>IndexError\<close>.
\<close>

fun filter_results ::
  "real \<Rightarrow> nat \<Rightarrow> real list \<Rightarrow> query_results \<Rightarrow> query_results \<Rightarrow> error + query_results" where
  "filter_results t i [] results filtered_results = Inr filtered_results"
| "filter_results t i (distance # ds) results filtered_results =
     (let similarity = 1 - distance
      in if similarity \<ge> t then
           (if i < length (documents results) \<and> i < length (metadatas results)
                \<and> i < length (ids results)
            then filter_results t (Suc i) ds results
                   \<lparr>documents = documents filtered_results @ [documents results ! i],
                    metadatas = metadatas filtered_results @ [metadatas results ! i],
                    distances = distances filtered_results @ [distance],
                    ids = ids filtered_results @ [ids results ! i]\<rparr>
            else Inl IndexError)
         else filter_results t (Suc i) ds results filtered_results)"

text \<open>The \<^verbatim>\<open>try\<close> block of \<^verbatim>\<open>query\<close> once the collection handle is at hand.\<close>

definition search ::
  "('c, 'e) services \<Rightarrow> 'c rag_pipeline \<Rightarrow> 'c \<Rightarrow> string \<Rightarrow> int option \<Rightarrow> meta option
     \<Rightarrow> error + query_results" where
  "search S self collection query_text n_results filter_dict =
     (let n = (case n_results of
                 None \<Rightarrow> top_k self
               | Some k \<Rightarrow> if k = 0 then top_k self else k)
      in case embedder_encode S [query_text] of
           Inl e \<Rightarrow> Inl e
         | Inr [] \<Rightarrow> Inl IndexError
         | Inr (query_embedding # _) \<Rightarrow>
             (case collection_query S collection query_embedding n filter_dict of
                Inl e \<Rightarrow> Inl e
              | Inr results \<Rightarrow>
                  filter_results (similarity_threshold self) 0 (distances results) results
                    no_results))"

text \<open>
  \<^verbatim>\<open>query\<close> returns the filtered results, or four empty lists after any exception. The
  pipeline is returned with it, since a collection created on demand stays registered.
\<close>

definition query ::
  "('c, 'e) services \<Rightarrow> 'c rag_pipeline \<Rightarrow> string \<Rightarrow> string \<Rightarrow> int option \<Rightarrow> meta option
     \<Rightarrow> error + (query_results \<times> 'c rag_pipeline)" where
  "query S self query_text collection_name n_results filter_dict =
     (case map_of (collections self) collection_name of
        Some collection \<Rightarrow>
          (case search S self collection query_text n_results filter_dict of
             Inr filtered_results \<Rightarrow> Inr (filtered_results, self)
           | Inl e \<Rightarrow> Inr (no_results, self))
      | None \<Rightarrow>
          (case create_collection S self collection_name of
             Inl e \<Rightarrow> Inr (no_results, self)
           | Inr (collection, self') \<Rightarrow>
               (case search S self' collection query_text n_results filter_dict of
                  Inr filtered_results \<Rightarrow> Inr (filtered_results, self')
                | Inl e \<Rightarrow> Inr (no_results, self'))))"

subsection \<open>Prompt and generation\<close>

definition nl :: string where
  "nl = [CHR 0x0A]"

definition apostrophe :: string where
  "apostrophe = [CHR 0x27]"

text \<open>\<^verbatim>\<open>sep.join(parts)\<close>.\<close>

fun join :: "string \<Rightarrow> string list \<Rightarrow> string" where
  "join sep [] = []"
| "join sep [x] = x"
| "join sep (x # y # ys) = x @ sep @ join sep (y # ys)"

definition prompt_for :: "string \<Rightarrow> string \<Rightarrow> bool \<Rightarrow> string" where
  "prompt_for question ctx include_reasoning =
     (if include_reasoning then
        join nl
          [''You are AgriSense 2.0, an intelligent agricultural analysis system for India.'',
           [],
           ''Context from government datasets:'',
           ctx,
           [],
           ''User Question: '' @ question,
           [],
           ''Instructions:'',
           ''1. Answer the question using ONLY the data provided in the context'',
           ''2. Show your reasoning process step by step'',
           ''3. If the data shows trends or correlations, explain them'',
           ''4. Cite specific data points (states, years, values) to support your answer'',
           ''5. If the context doesn'' @ apostrophe
             @ ''t contain enough information, say so clearly'',
           ''6. Suggest policy insights if relevant'',
           [],
           ''Answer with reasoning:'']
      else
        join nl
          [''Context: '' @ ctx,
           [],
           ''Question: '' @ question,
           [],
           ''Answer clearly and concisely based only on the provided context:''])"

text \<open>
  \<^verbatim>\<open>str.strip()\<close> removes white space at both ends; the white space of ASCII is modelled.
\<close>

definition is_space :: "char \<Rightarrow> bool" where
  "is_space c \<longleftrightarrow> (let n = (of_char c :: nat) in (9 \<le> n \<and> n \<le> 13) \<or> (28 \<le> n \<and> n \<le> 32))"

definition strip :: "string \<Rightarrow> string" where
  "strip s = rev (dropWhile is_space (rev (dropWhile is_space s)))"

text \<open>\<^verbatim>\<open>str(e)\<close> of an exception: its message.\<close>

fun str_error :: "error \<Rightarrow> string" where
  "str_error (ServiceError m) = m"
| "str_error (KeyError c) = apostrophe @ c @ apostrophe"
| "str_error e = []"

definition generate_response ::
  "('c, 'e) services \<Rightarrow> string \<Rightarrow> string \<Rightarrow> int \<Rightarrow> real \<Rightarrow> bool \<Rightarrow> error + string" where
  "generate_response S question ctx max_tokens temperature include_reasoning =
     (case text_generation S (prompt_for question ctx include_reasoning) max_tokens
             temperature of
        Inr response \<Rightarrow> Inr (strip response)
      | Inl e \<Rightarrow> Inr (''Error generating response: '' @ str_error e))"

subsection \<open>The complete pipeline\<close>

fun digit :: "nat \<Rightarrow> char" where
  "digit n = char_of (48 + n)"

function show_nat :: "nat \<Rightarrow> string" where
  "show_nat n = (if n < 10 then [digit n] else show_nat (n div 10) @ [digit (n mod 10)])"
  by pat_completeness auto
termination
  by (relation "measure id") auto

text \<open>
  One labelled section per retrieved document, numbered from \<open>i\<close>;
  \<^verbatim>\<open>metadata.get('dataset', 'Unknown')\<close> names the origin.
\<close>

fun context_parts :: "nat \<Rightarrow> (string \<times> meta) list \<Rightarrow> string list" where
  "context_parts i [] = []"
| "context_parts i ((doc, md) # rest) =
     (''[Source '' @ show_nat i @ '' - ''
        @ (case map_of md ''dataset'' of Some d \<Rightarrow> d | None \<Rightarrow> ''Unknown'')
        @ '']'' @ nl @ doc @ nl)
     # context_parts (Suc i) rest"

record rag_answer =
  answer :: string
  sources :: "meta list"
  context_text :: string
  confidence :: real
  num_sources :: "nat option"

definition rag_query ::
  "('c, 'e) services \<Rightarrow> 'c rag_pipeline \<Rightarrow> string \<Rightarrow> string \<Rightarrow> bool \<Rightarrow> int option
     \<Rightarrow> error + (rag_answer \<times> 'c rag_pipeline)" where
  "rag_query S self question collection_name include_reasoning n_results =
     (case query S self question collection_name n_results None of
        Inl e \<Rightarrow> Inl e
      | Inr (retrieval_results, self') \<Rightarrow>
          if documents retrieval_results = [] then
            Inr (\<lparr>answer = ''I couldn'' @ apostrophe
                     @ ''t find relevant information in the available datasets to answer this question.'',
                  sources = [], context_text = [], confidence = 0, num_sources = None\<rparr>, self')
          else
            let ctx = join nl (context_parts 1
                        (zip (documents retrieval_results) (metadatas retrieval_results)))
            in case generate_response S question ctx 1024 0.7 include_reasoning of
                 Inl e \<Rightarrow> Inl e
               | Inr generated \<Rightarrow>
                   let conf =
                         (if distances retrieval_results \<noteq> [] then
                            1 - sum_list (distances retrieval_results)
                                  / real (length (distances retrieval_results))
                          else 0)
                   in Inr (\<lparr>answer = generated,
                            sources = metadatas retrieval_results,
                            context_text = ctx,
                            confidence = conf,
                            num_sources = Some (length (documents retrieval_results))\<rparr>, self'))"

text \<open>
  The words of the specification for retrieval: a response of the index is aligned when
  its four lists have one length, and \<open>surviving P\<close> keeps, in the order of the index, the
  results whose distance satisfies \<open>P\<close>.
\<close>

definition aligned :: "query_results \<Rightarrow> bool" where
  "aligned r \<longleftrightarrow>
     length (documents r) = length (distances r) \<and> length (metadatas r) = length (distances r)
     \<and> length (ids r) = length (distances r)"

definition surviving :: "(real \<Rightarrow> bool) \<Rightarrow> query_results \<Rightarrow> query_results" where
  "surviving P r =
     \<lparr>documents = map snd (filter (\<lambda>p. P (fst p)) (zip (distances r) (documents r))),
      metadatas = map snd (filter (\<lambda>p. P (fst p)) (zip (distances r) (metadatas r))),
      distances = filter P (distances r),
      ids = map snd (filter (\<lambda>p. P (fst p)) (zip (distances r) (ids r)))\<rparr>"

section \<open>An instance of the library routines, and sample data\<close>

text \<open>
  To evaluate the model on examples, the parameters need values. \<open>sample_pandas\<close> fixes
  them on the inputs the examples use: inner joins on key columns present on both sides
  (left order, then right order; a non-key label present on both sides gets the suffix),
  grouping on the sorted keys with the aggregations \<^verbatim>\<open>sum\<close> and \<^verbatim>\<open>count\<close>, Pearson's
  coefficient on numbers, numbers read as nanoseconds since the epoch by
  \<^verbatim>\<open>to_datetime\<close>, and strings rendered as themselves. Elsewhere its routines raise
  \<open>ServiceError\<close>. The theorems do not depend on it.
\<close>

definition inner_merge :: "dataframe \<Rightarrow> dataframe \<Rightarrow> string list \<Rightarrow> error + dataframe" where
  "inner_merge l r on =
     (case filter (\<lambda>k. \<not> (k \<in> set (columns l) \<and> k \<in> set (columns r))) on of
        k # _ \<Rightarrow> Inl (KeyError k)
      | [] \<Rightarrow>
          if on = [] then Inl (ServiceError ''no key columns'')
          else
            let others = filter (\<lambda>c. c \<notin> set on) (columns r);
                lname = (\<lambda>c. if c \<in> set others then c @ ''_left'' else c);
                rname = (\<lambda>c. if c \<in> set (columns l) then c @ ''_right'' else c)
            in Inr \<lparr>columns = map lname (columns l) @ map rname others,
                    dtypes = dtypes l @ map (dtype_at r) others,
                    rows = concat (map (\<lambda>lr.
                             map (\<lambda>rr. lr @ map (cell_at (columns r) rr) others)
                               (filter (\<lambda>rr. list_all (\<lambda>k. cell_at (columns l) lr k
                                                            = cell_at (columns r) rr k) on)
                                  (rows r)))
                             (rows l))\<rparr>)"

text \<open>An order on cells for sorting group keys: numbers, then times, then strings.\<close>

fun cell_less :: "cell \<Rightarrow> cell \<Rightarrow> bool" where
  "cell_less (Num x) (Num y) = (x < y)"
| "cell_less (Num x) c = (c \<noteq> Null)"
| "cell_less (Time s) (Time t) = (s < t)"
| "cell_less (Time s) (Str b) = True"
| "cell_less (Str a) (Str b) = lexordp (\<lambda>p q. (of_char p :: nat) < of_char q) a b"
| "cell_less c d = False"

fun insert_sorted :: "('a \<Rightarrow> 'a \<Rightarrow> bool) \<Rightarrow> 'a \<Rightarrow> 'a list \<Rightarrow> 'a list" where
  "insert_sorted lt x [] = [x]"
| "insert_sorted lt x (y # ys) =
     (if lt y x then y # insert_sorted lt x ys else x # y # ys)"

definition sorted_keys :: "string list \<Rightarrow> dataframe \<Rightarrow> cell list list" where
  "sorted_keys ks df =
     foldr (insert_sorted (lexordp cell_less))
       (remdups (filter (\<lambda>k. Null \<notin> set k) (map (\<lambda>r. map (cell_at (columns df) r) ks) (rows df))))
       []"

definition group_rows :: "string list \<Rightarrow> dataframe \<Rightarrow> cell list \<Rightarrow> cell list list" where
  "group_rows ks df k = filter (\<lambda>r. map (cell_at (columns df) r) ks = k) (rows df)"

fun aggregate :: "string \<Rightarrow> cell list \<Rightarrow> error + cell" where
  "aggregate f cs =
     (if f = ''count'' then Inr (Num (real (length (dropna_series cs))))
      else if f = ''sum'' then
        (case those (map num_of (dropna_series cs)) of
           None \<Rightarrow> Inl TypeError
         | Some xs \<Rightarrow> Inr (Num (sum_list xs)))
      else Inl (ServiceError ''aggregation not in the sample''))"

fun aggregate_all ::
  "dataframe \<Rightarrow> cell list list \<Rightarrow> (string \<times> string) list \<Rightarrow> error + cell list" where
  "aggregate_all df rs [] = Inr []"
| "aggregate_all df rs ((c, f) # rest) =
     (if c \<notin> set (columns df) then Inl (KeyError c)
      else (case aggregate f (map (\<lambda>r. cell_at (columns df) r c) rs) of
              Inl e \<Rightarrow> Inl e
            | Inr v \<Rightarrow>
                (case aggregate_all df rs rest of
                   Inl e \<Rightarrow> Inl e
                 | Inr vs \<Rightarrow> Inr (v # vs))))"

fun aggregate_groups ::
  "string list \<Rightarrow> dataframe \<Rightarrow> (string \<times> string) list \<Rightarrow> cell list list
     \<Rightarrow> error + cell list list" where
  "aggregate_groups ks df aggs [] = Inr []"
| "aggregate_groups ks df aggs (k # rest) =
     (case aggregate_all df (group_rows ks df k) aggs of
        Inl e \<Rightarrow> Inl e
      | Inr vs \<Rightarrow>
          (case aggregate_groups ks df aggs rest of
             Inl e \<Rightarrow> Inl e
           | Inr out \<Rightarrow> Inr ((k @ vs) # out)))"

definition groupby_agg ::
  "dataframe \<Rightarrow> string list \<Rightarrow> (string \<times> string) list \<Rightarrow> error + dataframe" where
  "groupby_agg df ks aggs =
     (case aggregate_groups ks df aggs (sorted_keys ks df) of
        Inl e \<Rightarrow> Inl e
      | Inr out \<Rightarrow>
          Inr \<lparr>columns = ks @ map fst aggs,
               dtypes = map (dtype_at df) ks
                 @ map (\<lambda>a. if snd a = ''count'' then Int64 else dtype_at df (fst a)) aggs,
               rows = out\<rparr>)"

definition groupby :: "dataframe \<Rightarrow> string \<Rightarrow> error + (cell \<times> dataframe) list" where
  "groupby df c =
     (if c \<in> set (columns df)
      then Inr (map (\<lambda>k. (hd k, df\<lparr>rows := group_rows [c] df k\<rparr>)) (sorted_keys [c] df))
      else Inl (KeyError c))"

definition pearson :: "cell list \<Rightarrow> cell list \<Rightarrow> error + pyfloat" where
  "pearson cs ds =
     (case (those (map num_of cs), those (map num_of ds)) of
        (Some xs, Some ys) \<Rightarrow>
          let mx = sum_list xs / real (length xs);
              my = sum_list ys / real (length ys);
              sxy = sum_list (map (\<lambda>(x, y). (x - mx) * (y - my)) (zip xs ys));
              sxx = sum_list (map (\<lambda>x. (x - mx) * (x - mx)) xs);
              syy = sum_list (map (\<lambda>y. (y - my) * (y - my)) ys)
          in if sxx * syy = 0 then Inr NaN else Inr (Float (sxy / sqrt (sxx * syy)))
      | _ \<Rightarrow> Inl TypeError)"

fun epoch_time :: "cell \<Rightarrow> cell" where
  "epoch_time (Num x) = Time \<lfloor>x\<rfloor>"
| "epoch_time (Time t) = Time t"
| "epoch_time c = Null"

fun render :: "cell \<Rightarrow> string" where
  "render (Str s) = s"
| "render (Num x) = (if 0 \<le> x \<and> x = of_int \<lfloor>x\<rfloor> then show_nat (nat \<lfloor>x\<rfloor>) else ''number'')"
| "render (Time t) = (if 0 \<le> t then show_nat (nat t) else ''time'')"
| "render Null = ''nan''"

definition sample_pandas :: pandas where
  "sample_pandas =
     \<lparr>pd_merge = (\<lambda>l r on how.
         if how = ''inner'' then inner_merge l r on
         else Inl (ServiceError ''join mode not in the sample'')),
      pd_groupby_agg = groupby_agg,
      pd_corr = pearson,
      pd_to_datetime = (\<lambda>cs. Inr (map epoch_time cs)),
      pd_groupby = groupby,
      pd_str = render\<rparr>"

text \<open>
  The tables of the examples: the rainfall table of the specification, a yield table
  sharing its keys, a price table sharing no column with it, and two series of readings
  stored out of time order.
\<close>

definition rainfall :: dataframe where
  "rainfall =
     \<lparr>columns = [''state'', ''year'', ''mm''],
      dtypes = [Object, Int64, Int64],
      rows = [[Str ''A'', Num 2020, Num 800], [Str ''A'', Num 2021, Num 850]]\<rparr>"

definition yields :: dataframe where
  "yields =
     \<lparr>columns = [''state'', ''year'', ''kg''],
      dtypes = [Object, Int64, Int64],
      rows = [[Str ''A'', Num 2020, Num 2720]]\<rparr>"

definition prices :: dataframe where
  "prices =
     \<lparr>columns = [''market'', ''price''],
      dtypes = [Object, Float64],
      rows = [[Str ''M'', Num 21]]\<rparr>"

definition readings :: dataframe where
  "readings =
     \<lparr>columns = [''t'', ''v''],
      dtypes = [Int64, Float64],
      rows = [[Num 3, Num 80], [Num 1, Num 100], [Num 5, Null], [Num 4, Num 110],
              [Num 2, Num 90]]\<rparr>"

definition short_readings :: dataframe where
  "short_readings =
     \<lparr>columns = [''t'', ''v''],
      dtypes = [Int64, Float64],
      rows = [[Num 2, Num 90], [Num 1, Num 100]]\<rparr>"

definition fusion :: datafusion where
  "fusion =
     run [(''rainfall'', rainfall, ''Annual rainfall'', Some [''state'', ''year''], Some ''year''),
          (''yields'', yields, ''Crop yield'', Some [''state'', ''year''], Some ''year''),
          (''prices'', prices, ''Market prices'', None, None),
          (''readings'', readings, ''Readings'', None, Some ''t''),
          (''short'', short_readings, ''Readings'', None, Some ''t'')]"

text \<open>The join of \<open>rainfall\<close> and \<open>yields\<close> on state and year.\<close>

definition rain_and_yield :: dataframe where
  "rain_and_yield =
     \<lparr>columns = [''state'', ''year'', ''mm'', ''kg''],
      dtypes = [Object, Int64, Int64, Int64],
      rows = [[Str ''A'', Num 2020, Num 800, Num 2720]]\<rparr>"

text \<open>
  Sample services for retrieval: an index that answers every query with three aligned
  results, and three language-model clients: one that answers, one that raises, and one
  whose generated text reads like the message of the failure.
\<close>

definition index_response :: query_results where
  "index_response =
     \<lparr>documents = [''Rainfall in A was 800 mm in 2020'', ''Yield in A was 2720 kg in 2020'',
                   ''Price at M was 21''],
      metadatas = [[(''dataset'', ''rainfall'')], [(''dataset'', ''yields'')], []],
      distances = [1 / 10, 1 / 4, 3 / 5],
      ids = [''doc_0'', ''doc_1'', ''doc_2'']\<rparr>"

definition demo_services :: "(nat, nat) services" where
  "demo_services =
     \<lparr>embedder_encode = (\<lambda>texts. Inr (map length texts)),
      get_or_create_collection = (\<lambda>name. Inr 0),
      collection_query = (\<lambda>collection embedding n filter_dict. Inr index_response),
      text_generation = (\<lambda>prompt max_new_tokens temperature. Inr '' Rainfall rose. '')\<rparr>"

definition failing_llm :: "(nat, nat) services" where
  "failing_llm =
     demo_services\<lparr>text_generation :=
       (\<lambda>prompt max_new_tokens temperature. Inl (ServiceError ''timeout''))\<rparr>"

definition echoing_llm :: "(nat, nat) services" where
  "echoing_llm =
     demo_services\<lparr>text_generation :=
       (\<lambda>prompt max_new_tokens temperature. Inr ''Error generating response: timeout'')\<rparr>"

definition pipeline :: "nat rag_pipeline" where
  "pipeline = \<lparr>top_k = 5, similarity_threshold = 7 / 10, collections = []\<rparr>"

text \<open>The results of \<^verbatim>\<open>query\<close> without the pipeline.\<close>

definition retrieved ::
  "('c, 'e) services \<Rightarrow> 'c rag_pipeline \<Rightarrow> string \<Rightarrow> string \<Rightarrow> int option \<Rightarrow> meta option
     \<Rightarrow> query_results" where
  "retrieved S self query_text collection_name n_results filter_dict =
     (case query S self query_text collection_name n_results filter_dict of
        Inr (results, self') \<Rightarrow> results
      | Inl e \<Rightarrow> no_results)"

subsection \<open>Reading the outcome of a time-series analysis\<close>










subsection \<open>Reading the outcome of retrieval\<close>

text \<open>
  The response of the index that \<^verbatim>\<open>query\<close> goes on to filter: \<open>index_answer\<close> for a
  collection handle, \<open>ranked\<close> for a collection name. They are the empty response where
  the embedder, the store or the index raises. \<open>similar t d\<close> is the test of the filter,
  and \<open>confidence_of\<close> reads the confidence of an outcome of \<^verbatim>\<open>rag_query\<close>.
\<close>

definition index_answer ::
  "('c, 'e) services \<Rightarrow> 'c rag_pipeline \<Rightarrow> 'c \<Rightarrow> string \<Rightarrow> int option \<Rightarrow> meta option
     \<Rightarrow> query_results" where
  "index_answer S self collection query_text n_results filter_dict =
     (case embedder_encode S [query_text] of
        Inl e \<Rightarrow> no_results
      | Inr [] \<Rightarrow> no_results
      | Inr (query_embedding # _) \<Rightarrow>
          (case collection_query S collection query_embedding
                  (case n_results of
                     None \<Rightarrow> top_k self
                   | Some k \<Rightarrow> if k = 0 then top_k self else k) filter_dict of
             Inl e \<Rightarrow> no_results
           | Inr results \<Rightarrow> results))"

definition ranked ::
  "('c, 'e) services \<Rightarrow> 'c rag_pipeline \<Rightarrow> string \<Rightarrow> string \<Rightarrow> int option \<Rightarrow> meta option
     \<Rightarrow> query_results" where
  "ranked S self query_text collection_name n_results filter_dict =
     (case map_of (collections self) collection_name of
        Some collection \<Rightarrow> index_answer S self collection query_text n_results filter_dict
      | None \<Rightarrow>
          (case get_or_create_collection S collection_name of
             Inl e \<Rightarrow> no_results
           | Inr collection \<Rightarrow> index_answer S self collection query_text n_results filter_dict))"

definition similar :: "real \<Rightarrow> real \<Rightarrow> bool" where
  "similar t distance \<longleftrightarrow> t \<le> 1 - distance"

definition confidence_of :: "error + (rag_answer \<times> 'c rag_pipeline) \<Rightarrow> real option" where
  "confidence_of outcome = (case outcome of Inr (r, self') \<Rightarrow> Some (confidence r) | Inl e \<Rightarrow> None)"

section \<open>Properties of the registry and of filter, project, limit\<close>

lemma columns_keep_rows: "columns (keep_rows c v df) = columns df"
  by (simp add: keep_rows_def)

lemma dtypes_keep_rows: "dtypes (keep_rows c v df) = dtypes df"
  by (simp add: keep_rows_def)

lemma columns_apply_filters: "columns (apply_filters fs df) = columns df"
  by (induction fs df rule: apply_filters.induct) (simp_all add: columns_keep_rows)

lemma dtypes_apply_filters: "dtypes (apply_filters fs df) = dtypes df"
  by (induction fs df rule: apply_filters.induct) (simp_all add: dtypes_keep_rows)

lemma columns_head: "columns (head n df) = columns df"
  by (simp add: head_def)

lemma dtypes_head: "dtypes (head n df) = dtypes df"
  by (simp add: head_def)

lemma apply_filters_delete:
  "c \<notin> set (columns df) \<Longrightarrow> apply_filters (AList.delete c fs) df = apply_filters fs df"
proof (induction fs arbitrary: df)
  case Nil
  then show ?case by simp
next
  case (Cons e fs)
  then show ?case by (cases e) (simp add: columns_keep_rows)
qed

lemma run_snoc: "run (calls @ [c]) = register (run calls) c"
  by (simp add: run_def)

lemma run_Nil: "run [] = init"
  by (simp add: run_def)

lemma datasets_register:
  "datasets (register self c) = AList.update (fst c) (fst (snd c)) (datasets self)"
  by (cases c) (simp add: register_dataset_def)

lemma metadata_register:
  "metadata (register self c) = AList.update (fst c) (meta_of c) (metadata self)"
  by (cases c) (simp add: register_dataset_def)

lemma distinct_datasets_run: "distinct (map fst (datasets (run calls)))"
  by (induction calls rule: rev_induct)
     (simp_all add: run_Nil init_def run_snoc datasets_register distinct_update)

lemma distinct_metadata_run: "distinct (map fst (metadata (run calls)))"
  by (induction calls rule: rev_induct)
     (simp_all add: run_Nil init_def run_snoc metadata_register distinct_update)

lemma datasets_run:
  "map_of (datasets (run calls)) x = map_of (rev (map (\<lambda>c. (fst c, fst (snd c))) calls)) x"
  by (induction calls rule: rev_induct)
     (simp_all add: run_Nil init_def run_snoc datasets_register update_conv')

lemma metadata_run:
  "map_of (metadata (run calls)) x = map_of (rev (map (\<lambda>c. (fst c, meta_of c)) calls)) x"
  by (induction calls rule: rev_induct)
     (simp_all add: run_Nil init_def run_snoc metadata_register update_conv')

lemma only_entry:
  "distinct (map fst al) \<Longrightarrow> map_of al x = Some v \<Longrightarrow> filter (\<lambda>e. fst e = x) al = [(x, v)]"
proof (induction al)
  case Nil
  then show ?case by simp
next
  case (Cons e al)
  show ?case
  proof (cases "fst e = x")
    case True
    with Cons.prems have "snd e = v" and "x \<notin> fst ` set al" by (auto simp: image_iff)
    then have "filter (\<lambda>e. fst e = x) al = []" by (auto simp: filter_empty_conv)
    with True \<open>snd e = v\<close> show ?thesis by (cases e) simp
  next
    case False
    with Cons show ?thesis by (cases e) auto
  qed
qed

text \<open>
  Claim C8. After any sequence of \<^verbatim>\<open>register_dataset\<close> calls the names of the registry
  are distinct, in both dictionaries; \<^verbatim>\<open>get_dataset\<close> returns for every name the table of
  the last call that registered it, and the metadata is that of the same call. Registering
  \<open>x\<close> twice in a row leaves exactly one entry for \<open>x\<close>: the second table with the
  second metadata.
\<close>

theorem register_dataset_replaces:
  "distinct (map fst (datasets (run calls)))
   \<and> distinct (map fst (metadata (run calls)))
   \<and> get_dataset (run calls) x = map_of (rev (map (\<lambda>c. (fst c, fst (snd c))) calls)) x
   \<and> map_of (metadata (run calls)) x = map_of (rev (map (\<lambda>c. (fst c, meta_of c)) calls)) x
   \<and> get_dataset (run (calls @ [(x, d1, s1, k1, t1), (x, d2, s2, k2, t2)])) x = Some d2
   \<and> filter (\<lambda>e. fst e = x) (datasets (run (calls @ [(x, d1, s1, k1, t1), (x, d2, s2, k2, t2)])))
       = [(x, d2)]
   \<and> map_of (metadata (run (calls @ [(x, d1, s1, k1, t1), (x, d2, s2, k2, t2)]))) x
       = Some (meta_of (x, d2, s2, k2, t2))"
proof -
  let ?st = "run (calls @ [(x, d1, s1, k1, t1), (x, d2, s2, k2, t2)])"
  have g: "map_of (datasets ?st) x = Some d2"
    by (simp add: datasets_run)
  have m: "map_of (metadata ?st) x = Some (meta_of (x, d2, s2, k2, t2))"
    by (simp only: metadata_run) simp
  have f: "filter (\<lambda>e. fst e = x) (datasets ?st) = [(x, d2)]"
    by (rule only_entry [OF distinct_datasets_run g])
  show ?thesis
    unfolding get_dataset_def
    by (intro conjI distinct_datasets_run distinct_metadata_run datasets_run metadata_run g m f)
qed

text \<open>
  Claim C9. For a registered dataset and a non-empty list of requested columns none of
  which is a column of the dataset, \<^verbatim>\<open>query_dataset\<close> returns what it returns without a
  column list: the projection is skipped and the result has all columns of the dataset.
\<close>

theorem query_dataset_unknown_columns:
  assumes "map_of (datasets self) name = Some d"
    and "cs \<noteq> []"
    and "set cs \<inter> set (columns d) = {}"
  shows "query_dataset self name fs (Some cs) limit = query_dataset self name fs None limit
    \<and> (\<exists>df. query_dataset self name fs (Some cs) limit = Inr df
          \<and> columns df = columns d \<and> dtypes df = dtypes d)"
proof -
  have "filter (\<lambda>c. c \<in> set (columns d)) cs = []"
    using assms(3) by (auto simp: filter_empty_conv)
  with assms(1,2) show ?thesis
    by (simp add: query_dataset_def Let_def columns_apply_filters dtypes_apply_filters
          columns_head dtypes_head split: option.split)
qed

text \<open>
  Claim C10. For a registered dataset, the filter entries on a column that the dataset
  does not have are ignored: \<^verbatim>\<open>query_dataset\<close> does not raise, and its result is that of
  the query with the entry deleted from the filter mapping; with that entry alone every
  row is returned.
\<close>

theorem query_dataset_ignores_unknown_filter:
  assumes "map_of (datasets self) name = Some d"
    and "c \<notin> set (columns d)"
  shows "query_dataset self name (Some fs) cols limit
           = query_dataset self name (Some (AList.delete c fs)) cols limit
    \<and> (\<exists>df. query_dataset self name (Some fs) cols limit = Inr df)
    \<and> query_dataset self name (Some [(c, v)]) None None = Inr d"
  using assms by (simp add: query_dataset_def Let_def apply_filters_delete)


lemma fusion_rainfall: "map_of (datasets fusion) ''rainfall'' = Some rainfall"
  by (simp add: fusion_def run_def init_def register_dataset_def)

lemma fusion_yields: "map_of (datasets fusion) ''yields'' = Some yields"
  by (simp add: fusion_def run_def init_def register_dataset_def)

lemma fusion_prices: "map_of (datasets fusion) ''prices'' = Some prices"
  by (simp add: fusion_def run_def init_def register_dataset_def)



text \<open>
  Claim C9 on the rainfall table: neither \<open>district\<close> nor \<open>crop\<close> is a column, and the
  whole table comes back.
\<close>

theorem query_dataset_unknown_columns_witness:
  "map_of (datasets fusion) ''rainfall'' = Some rainfall
   \<and> [''district'', ''crop''] \<noteq> []
   \<and> set [''district'', ''crop''] \<inter> set (columns rainfall) = {}
   \<and> query_dataset fusion ''rainfall'' None (Some [''district'', ''crop'']) None = Inr rainfall
   \<and> query_dataset fusion ''rainfall'' None None None = Inr rainfall"
proof -
  have h3: "set [''district'', ''crop''] \<inter> set (columns rainfall) = {}"
    by (simp add: rainfall_def)
  have h2: "[''district'', ''crop''] \<noteq> []" by simp
  have q: "query_dataset fusion ''rainfall'' None None None = Inr rainfall"
    by (simp add: query_dataset_def fusion_rainfall)
  from query_dataset_unknown_columns [OF fusion_rainfall h2 h3, of None None] q
  show ?thesis using fusion_rainfall h3 by simp
qed

text \<open>
  Claim C10 on the rainfall table: the entry on \<open>district\<close> changes nothing.
\<close>

theorem query_dataset_ignores_unknown_filter_witness:
  "map_of (datasets fusion) ''rainfall'' = Some rainfall
   \<and> ''district'' \<notin> set (columns rainfall)
   \<and> query_dataset fusion ''rainfall''
        (Some [(''district'', Scalar (Str ''X'')), (''year'', Scalar (Num 2021))]) None None
       = query_dataset fusion ''rainfall'' (Some [(''year'', Scalar (Num 2021))]) None None
   \<and> query_dataset fusion ''rainfall'' (Some [(''year'', Scalar (Num 2021))]) None None
       = Inr (rainfall\<lparr>rows := [[Str ''A'', Num 2021, Num 850]]\<rparr>)
   \<and> query_dataset fusion ''rainfall'' (Some [(''district'', Scalar (Str ''X''))]) None None
       = Inr rainfall"
proof -
  have h2: "''district'' \<notin> set (columns rainfall)"
    by (simp add: rainfall_def)
  have q: "query_dataset fusion ''rainfall'' (Some [(''year'', Scalar (Num 2021))]) None None
       = Inr (rainfall\<lparr>rows := [[Str ''A'', Num 2021, Num 850]]\<rparr>)"
    by (simp add: query_dataset_def fusion_rainfall keep_rows_def cell_at_def rainfall_def)
  from query_dataset_ignores_unknown_filter [OF fusion_rainfall h2,
      of "[(''district'', Scalar (Str ''X'')), (''year'', Scalar (Num 2021))]" None None
         "Scalar (Str ''X'')"]
  show ?thesis using fusion_rainfall h2 q by simp
qed

section \<open>Properties of join, aggregation and correlation\<close>

lemma merge_datasets_returns: "\<exists>df. merge_datasets L self l r on how = Inr df"
  by (simp add: merge_datasets_def Let_def split: option.split)

lemma find_common_columns_disjoint:
  assumes "map_of (datasets self) left_name = Some l"
    and "map_of (datasets self) right_name = Some r"
  shows "find_common_columns self left_name right_name = [] \<longleftrightarrow> set (columns l) \<inter> set (columns r) = {}"
  using assms by (auto simp: find_common_columns_def filter_empty_conv)

text \<open>
  Claim C1, as the code has it. For two registered datasets without a common column name,
  \<^verbatim>\<open>merge_datasets\<close> without a key list logs the problem and returns the empty table
  \<^verbatim>\<open>pd.DataFrame()\<close>; it raises nothing.
\<close>

theorem merge_datasets_no_common_columns:
  assumes "map_of (datasets self) left_name = Some l"
    and "map_of (datasets self) right_name = Some r"
    and "set (columns l) \<inter> set (columns r) = {}"
  shows "merge_datasets L self left_name right_name None how = Inr DataFrame"
  using assms find_common_columns_disjoint [OF assms(1,2)]
  by (simp add: merge_datasets_def)

text \<open>
  Claim C1 as stated asks for a \<open>NoJoinKeyError\<close>. The rainfall and the price table share
  no column, and their join returns the empty table.
\<close>

theorem merge_datasets_no_common_columns_counterexample:
  "set (columns rainfall) \<inter> set (columns prices) = {}
   \<and> merge_datasets sample_pandas fusion ''rainfall'' ''prices'' None ''inner'' = Inr DataFrame
   \<and> merge_datasets sample_pandas fusion ''rainfall'' ''prices'' None ''inner'' \<noteq> Inl NoJoinKeyError"
  by (simp add: merge_datasets_def fusion_rainfall fusion_prices find_common_columns_def
      rainfall_def prices_def)

text \<open>
  Claim C1 on the rainfall and the price table, here with an outer join.
\<close>

theorem merge_datasets_no_common_columns_witness:
  "map_of (datasets fusion) ''rainfall'' = Some rainfall
   \<and> map_of (datasets fusion) ''prices'' = Some prices
   \<and> set (columns rainfall) \<inter> set (columns prices) = {}
   \<and> merge_datasets sample_pandas fusion ''rainfall'' ''prices'' None ''outer'' = Inr DataFrame"
proof -
  have h: "set (columns rainfall) \<inter> set (columns prices) = {}"
    by (simp add: rainfall_def prices_def)
  from merge_datasets_no_common_columns [OF fusion_rainfall fusion_prices h]
  show ?thesis using fusion_rainfall fusion_prices h by simp
qed

text \<open>
  Claim C2, as the code has it. Let \<open>df\<close> be the dataset after the filters. When none of
  the requested group columns is a column of \<open>df\<close>, \<^verbatim>\<open>aggregate_data\<close> raises nothing and
  returns an empty table: \<^verbatim>\<open>pd.DataFrame()\<close>, or \<open>df\<close> itself when \<open>df\<close> has no data.
  When some of them are and \<open>df\<close> has data, the result is the aggregation of \<open>df\<close> grouped
  by the valid columns only, in the requested order (and \<^verbatim>\<open>pd.DataFrame()\<close> if pandas
  raises).
\<close>

theorem aggregate_data_group_columns:
  assumes "query_dataset self dataset_name filters None None = Inr df"
  shows "(filter (\<lambda>c. c \<in> set (columns df)) group_by = [] \<longrightarrow>
            aggregate_data L self dataset_name group_by agg_funcs filters
              = Inr (if df_empty df then df else DataFrame))
    \<and> (filter (\<lambda>c. c \<in> set (columns df)) group_by \<noteq> [] \<and> \<not> df_empty df \<longrightarrow>
            aggregate_data L self dataset_name group_by agg_funcs filters
              = Inr (case pd_groupby_agg L df (filter (\<lambda>c. c \<in> set (columns df)) group_by)
                            agg_funcs of
                       Inr result \<Rightarrow> result
                     | Inl e \<Rightarrow> DataFrame))"
  using assms by (simp add: aggregate_data_def Let_def split: sum.split)

lemma query_rainfall: "query_dataset fusion ''rainfall'' None None None = Inr rainfall"
  by (simp add: query_dataset_def fusion_rainfall)

text \<open>
  Claim C2 as stated asks for an \<open>InvalidGroupColumnsError\<close>. Grouping the rainfall table
  by \<open>district\<close>, which it does not have, returns the empty table.
\<close>

theorem aggregate_data_group_columns_counterexample:
  "filter (\<lambda>c. c \<in> set (columns rainfall)) [''district''] = []
   \<and> aggregate_data sample_pandas fusion ''rainfall'' [''district''] [(''mm'', ''sum'')] None
       = Inr DataFrame
   \<and> aggregate_data sample_pandas fusion ''rainfall'' [''district''] [(''mm'', ''sum'')] None
       \<noteq> Inl InvalidGroupColumnsError"
  by (simp add: aggregate_data_def query_rainfall df_empty_def) (simp add: rainfall_def)

text \<open>
  Claim C2 on the rainfall table: grouped by \<open>district\<close> the result is empty; grouped by
  \<open>state\<close> and \<open>district\<close> the rainfall is summed by \<open>state\<close>.
\<close>

theorem aggregate_data_group_columns_witness:
  "query_dataset fusion ''rainfall'' None None None = Inr rainfall
   \<and> filter (\<lambda>c. c \<in> set (columns rainfall)) [''district''] = []
   \<and> aggregate_data sample_pandas fusion ''rainfall'' [''district''] [(''mm'', ''sum'')] None
       = Inr DataFrame
   \<and> filter (\<lambda>c. c \<in> set (columns rainfall)) [''state'', ''district''] = [''state'']
   \<and> \<not> df_empty rainfall
   \<and> aggregate_data sample_pandas fusion ''rainfall'' [''state'', ''district''] [(''mm'', ''sum'')]
         None
       = Inr \<lparr>columns = [''state'', ''mm''], dtypes = [Object, Int64],
               rows = [[Str ''A'', Num 1650]]\<rparr>"
proof -
  have f1: "filter (\<lambda>c. c \<in> set (columns rainfall)) [''district''] = []"
    by (simp add: rainfall_def)
  have f2: "filter (\<lambda>c. c \<in> set (columns rainfall)) [''state'', ''district''] = [''state'']"
    by (simp add: rainfall_def)
  have ne: "\<not> df_empty rainfall"
    by (simp add: df_empty_def rainfall_def)
  have g: "pd_groupby_agg sample_pandas rainfall [''state''] [(''mm'', ''sum'')]
       = Inr \<lparr>columns = [''state'', ''mm''], dtypes = [Object, Int64],
               rows = [[Str ''A'', Num 1650]]\<rparr>"
    by (simp add: rainfall_def sample_pandas_def groupby_agg_def sorted_keys_def cell_at_def
        group_rows_def dropna_series_def dtype_at_def)
  from aggregate_data_group_columns [OF query_rainfall, of "[''district'']" sample_pandas
      "[(''mm'', ''sum'')]"]
    aggregate_data_group_columns [OF query_rainfall, of "[''state'', ''district'']" sample_pandas
      "[(''mm'', ''sum'')]"]
  show ?thesis using query_rainfall f1 f2 ne g by simp
qed

lemma select_checked_pair:
  "select_checked [c1, c2] df =
     (if c1 \<in> set (columns df) then
        (if c2 \<in> set (columns df) then Inr (select [c1, c2] df) else Inl (KeyError c2))
      else Inl (KeyError c1))"
  by (simp add: select_checked_def)

lemma length_clean_pairs:
  "length (rows (dropna (select [c1, c2] df))) = length (paired_observations df c1 c2)"
proof -
  have "rows (dropna (select [c1, c2] df))
      = map (\<lambda>r. [cell_at (columns df) r c1, cell_at (columns df) r c2])
          (paired_observations df c1 c2)"
    by (simp add: dropna_def select_def paired_observations_def filter_map comp_def) metis
  then show ?thesis by simp
qed

lemma correlation_of_few:
  assumes "length (paired_observations merged (resolve merged v1 ''_left'')
             (resolve merged v2 ''_right'')) < 2"
  shows "correlation_of L merged v1 v2 = Inr (Float 0) \<or> (\<exists>e. correlation_of L merged v1 v2 = Inl e)"
  using assms
  by (simp add: correlation_of_def Let_def select_checked_pair length_clean_pairs)

text \<open>
  Claim C7, as the code has it. When the joined table has fewer than two rows in which
  both value columns (under their names after the join) are not null,
  \<^verbatim>\<open>calculate_correlation\<close> does not fail and returns the coefficient \<open>0.0\<close> together
  with the joined table; the detail is \<^verbatim>\<open>pd.DataFrame()\<close> when the joined table is empty.
\<close>

theorem calculate_correlation_sentinel:
  assumes "merge_datasets L self dataset1_name dataset2_name (Some merge_on) ''inner'' = Inr merged"
    and "length (paired_observations merged (resolve merged value_col1 ''_left'')
           (resolve merged value_col2 ''_right'')) < 2"
  shows "calculate_correlation L self dataset1_name dataset2_name value_col1 value_col2 merge_on
           = Inr (Float 0, if df_empty merged then DataFrame else merged)"
  using assms(1) correlation_of_few [OF assms(2), of L]
  by (auto simp: calculate_correlation_def)

lemma merge_rain_yield:
  "merge_datasets sample_pandas fusion ''rainfall'' ''yields'' (Some [''state'', ''year'']) ''inner''
     = Inr rain_and_yield"
  by (simp add: merge_datasets_def fusion_rainfall fusion_yields try_merge_def sample_pandas_def
      inner_merge_def rainfall_def yields_def rain_and_yield_def cell_at_def dtype_at_def)

text \<open>
  Claim C7 as stated asks for an empty detail. Rainfall and yield share one row of keys:
  one paired observation, coefficient \<open>0.0\<close>, and the detail is the joined row.
\<close>

theorem calculate_correlation_sentinel_counterexample:
  "length (paired_observations rain_and_yield ''mm'' ''kg'') < 2
   \<and> calculate_correlation sample_pandas fusion ''rainfall'' ''yields'' ''mm'' ''kg''
        [''state'', ''year'']
       = Inr (Float 0, rain_and_yield)
   \<and> \<not> df_empty rain_and_yield"
  apply (simp add: calculate_correlation_def merge_rain_yield)
  apply (simp add: correlation_of_def select_checked_pair resolve_def Let_def dropna_def select_def
      paired_observations_def df_empty_def rain_and_yield_def cell_at_def)
  done

text \<open>
  Claim C7 on the join of rainfall and yield.
\<close>

theorem calculate_correlation_sentinel_witness:
  "merge_datasets sample_pandas fusion ''rainfall'' ''yields'' (Some [''state'', ''year'']) ''inner''
     = Inr rain_and_yield
   \<and> length (paired_observations rain_and_yield (resolve rain_and_yield ''mm'' ''_left'')
        (resolve rain_and_yield ''kg'' ''_right'')) < 2
   \<and> calculate_correlation sample_pandas fusion ''rainfall'' ''yields'' ''mm'' ''kg''
        [''state'', ''year'']
       = Inr (Float 0, rain_and_yield)"
proof -
  have few: "length (paired_observations rain_and_yield (resolve rain_and_yield ''mm'' ''_left'')
        (resolve rain_and_yield ''kg'' ''_right'')) < 2"
    by (simp add: paired_observations_def rain_and_yield_def)
  have ne: "\<not> df_empty rain_and_yield"
    by (simp add: df_empty_def rain_and_yield_def)
  from calculate_correlation_sentinel [OF merge_rain_yield few]
  show ?thesis using merge_rain_yield few ne by simp
qed

section \<open>Properties of the time-series analysis\<close>
































section \<open>Properties of retrieval and answer generation\<close>

lemma aligned_no_results: "aligned no_results"
  by (simp add: aligned_def no_results_def)

lemma surviving_no_results: "surviving P no_results = no_results"
  by (simp add: surviving_def no_results_def)

lemma filter_results_aligned:
  assumes "aligned results" and "ds = drop i (distances results)"
  shows "filter_results t i ds results acc =
     Inr \<lparr>documents = documents acc
             @ map snd (filter (\<lambda>p. similar t (fst p)) (zip ds (drop i (documents results)))),
          metadatas = metadatas acc
             @ map snd (filter (\<lambda>p. similar t (fst p)) (zip ds (drop i (metadatas results)))),
          distances = distances acc @ filter (similar t) ds,
          ids = ids acc
             @ map snd (filter (\<lambda>p. similar t (fst p)) (zip ds (drop i (ids results))))\<rparr>"
  using assms(2)
proof (induction ds arbitrary: i acc)
  case Nil
  then show ?case by simp
next
  case (Cons d ds)
  from Cons.prems have i: "i < length (distances results)"
    by (metis drop_all leI list.distinct(1))
  from Cons.prems have d: "d = distances results ! i" and ds: "ds = drop (Suc i) (distances results)"
    by (metis Cons_nth_drop_Suc i list.inject)+
  from i assms(1) have l: "i < length (documents results)" "i < length (metadatas results)"
    "i < length (ids results)"
    by (simp_all add: aligned_def)
  note step = Cons_nth_drop_Suc [OF l(1), symmetric] Cons_nth_drop_Suc [OF l(2), symmetric]
    Cons_nth_drop_Suc [OF l(3), symmetric]
  show ?case
    by (simp add: Let_def l Cons.IH [OF ds] step similar_def)
qed

lemma search_aligned:
  assumes "\<forall>c e k w r. collection_query S c e k w = Inr r \<longrightarrow> aligned r"
  shows "\<exists>x. search S self collection q n f = x
    \<and> (case x of Inr r \<Rightarrow> r | Inl e \<Rightarrow> no_results)
        = surviving (similar (similarity_threshold self)) (index_answer S self collection q n f)"
proof (cases "embedder_encode S [q]")
  case (Inl e)
  then show ?thesis
    by (simp add: search_def index_answer_def surviving_no_results)
next
  case (Inr es)
  show ?thesis
  proof (cases es)
    case Nil
    with Inr show ?thesis
      by (simp add: search_def index_answer_def surviving_no_results)
  next
    case (Cons e rest)
    let ?n = "case n of None \<Rightarrow> top_k self | Some k \<Rightarrow> if k = 0 then top_k self else k"
    show ?thesis
    proof (cases "collection_query S collection e ?n f")
      case (Inl err)
      with Inr Cons show ?thesis
        by (simp add: search_def index_answer_def surviving_no_results)
    next
      case r: (Inr results)
      from assms r have al: "aligned results" by blast
      have "filter_results (similarity_threshold self) 0 (distances results) results no_results
          = Inr (surviving (similar (similarity_threshold self)) results)"
        using filter_results_aligned [OF al, of "distances results" 0 "similarity_threshold self"
            no_results]
        by (simp add: surviving_def no_results_def)
      with Inr Cons r show ?thesis
        by (simp add: search_def index_answer_def)
    qed
  qed
qed

lemma retrieved_aligned:
  assumes "\<forall>c e k w r. collection_query S c e k w = Inr r \<longrightarrow> aligned r"
  shows "retrieved S self q cn n f
     = surviving (similar (similarity_threshold self)) (ranked S self q cn n f)"
proof (cases "map_of (collections self) cn")
  case (Some c)
  from search_aligned [OF assms, of self c q n f] Some
  show ?thesis
    by (auto simp: retrieved_def query_def ranked_def split: sum.splits)
next
  case None
  show ?thesis
  proof (cases "get_or_create_collection S cn")
    case (Inl e)
    with None show ?thesis
      by (simp add: retrieved_def query_def ranked_def create_collection_def surviving_no_results)
  next
    case (Inr c)
    let ?self = "self\<lparr>collections := AList.update cn c (collections self)\<rparr>"
    have ia: "index_answer S ?self c q n f = index_answer S self c q n f"
      by (simp add: index_answer_def cong: sum.case_cong list.case_cong option.case_cong if_cong)
    from search_aligned [OF assms, of ?self c q n f] None Inr ia
    show ?thesis
      by (auto simp: retrieved_def query_def ranked_def create_collection_def split: sum.splits)
  qed
qed

lemma index_answer_threshold:
  "index_answer S (self\<lparr>similarity_threshold := t\<rparr>) c q n f = index_answer S self c q n f"
  by (simp add: index_answer_def cong: sum.case_cong list.case_cong option.case_cong if_cong)

lemma ranked_threshold:
  "ranked S (self\<lparr>similarity_threshold := t\<rparr>) q cn n f = ranked S self q cn n f"
  by (simp add: ranked_def index_answer_threshold cong: option.case_cong sum.case_cong)

lemma ranked_aligned:
  assumes "\<forall>c e k w r. collection_query S c e k w = Inr r \<longrightarrow> aligned r"
  shows "aligned (ranked S self q cn n f)"
  using assms
  by (auto simp: ranked_def index_answer_def aligned_no_results
      split: option.splits sum.splits list.splits)

lemma zip_filter_fst:
  assumes "length xs = length ds"
  shows "zip (filter Q ds) (map snd (filter (\<lambda>p. Q (fst p)) (zip ds xs)))
     = filter (\<lambda>p. Q (fst p)) (zip ds xs)"
proof -
  have "map fst (filter (\<lambda>p. Q (fst p)) (zip ds xs)) = filter Q (map fst (zip ds xs))"
    by (simp add: filter_map comp_def)
  also have "\<dots> = filter Q ds" using assms by simp
  finally have "filter Q ds = map fst (filter (\<lambda>p. Q (fst p)) (zip ds xs))" by simp
  then show ?thesis by (simp add: zip_map_fst_snd)
qed

lemma surviving_twice:
  assumes "aligned r" and "\<And>d. P d \<Longrightarrow> Q d"
  shows "surviving P (surviving Q r) = surviving P r"
proof -
  have f: "(\<lambda>x. Q x \<and> P x) = P"
    using assms(2) by auto
  have g: "(\<lambda>x::real \<times> 'a. Q (fst x) \<and> P (fst x)) = (\<lambda>p. P (fst p))"
    using assms(2) by auto
  from assms(1) show ?thesis
    by (simp add: surviving_def aligned_def zip_filter_fst f g)
qed

lemma sorted_surviving: "sorted (distances r) \<Longrightarrow> sorted (distances (surviving P r))"
  by (simp add: surviving_def sorted_wrt_filter)

text \<open>
  Claim C3. Let the index answer with aligned lists. Every result that \<^verbatim>\<open>query\<close> returns
  has similarity \<open>1 - distance\<close> at least the configured threshold; the returned results
  are the response of the index restricted, in its order, to the results that pass the
  threshold (so they are in ascending distance order when the response is); and for a
  lower threshold \<open>t'\<close> nothing is lost: the results for the configured threshold are
  those for \<open>t'\<close>, restricted in their order to the ones that pass the configured one.
\<close>

theorem retrieval_threshold_filter:
  assumes "\<forall>c e k w r. collection_query S c e k w = Inr r \<longrightarrow> aligned r"
  shows "(\<forall>d\<in>set (distances (retrieved S self q cn n f)). similarity_threshold self \<le> 1 - d)
    \<and> retrieved S self q cn n f
        = surviving (similar (similarity_threshold self)) (ranked S self q cn n f)
    \<and> (sorted (distances (ranked S self q cn n f))
          \<longrightarrow> sorted (distances (retrieved S self q cn n f)))
    \<and> (t' \<le> similarity_threshold self \<longrightarrow>
          retrieved S self q cn n f
            = surviving (similar (similarity_threshold self))
                (retrieved S (self\<lparr>similarity_threshold := t'\<rparr>) q cn n f))"
proof -
  let ?t = "similarity_threshold self"
  have eq: "retrieved S self q cn n f = surviving (similar ?t) (ranked S self q cn n f)"
    by (rule retrieved_aligned [OF assms])
  have 1: "\<forall>d\<in>set (distances (retrieved S self q cn n f)). ?t \<le> 1 - d"
    unfolding eq by (simp add: surviving_def similar_def)
  have 3: "sorted (distances (ranked S self q cn n f))
          \<longrightarrow> sorted (distances (retrieved S self q cn n f))"
    unfolding eq by (simp add: sorted_surviving)
  have 4: "retrieved S self q cn n f
            = surviving (similar ?t) (retrieved S (self\<lparr>similarity_threshold := t'\<rparr>) q cn n f)"
    if "t' \<le> ?t"
  proof -
    have "retrieved S (self\<lparr>similarity_threshold := t'\<rparr>) q cn n f
        = surviving (similar t') (ranked S self q cn n f)"
      using retrieved_aligned [OF assms, of "self\<lparr>similarity_threshold := t'\<rparr>" q cn n f]
      by (simp add: ranked_threshold)
    moreover have "surviving (similar ?t) (surviving (similar t') (ranked S self q cn n f))
        = surviving (similar ?t) (ranked S self q cn n f)"
      using that by (intro surviving_twice ranked_aligned assms) (simp_all add: similar_def)
    ultimately show ?thesis using eq by simp
  qed
  from 1 eq 3 4 show ?thesis by blast
qed


lemma demo_aligned:
  "\<forall>c e k w r. collection_query demo_services c e k w = Inr r \<longrightarrow> aligned r"
  by (simp add: demo_services_def index_response_def aligned_def)

lemma demo_ranked:
  "ranked demo_services (pipeline\<lparr>similarity_threshold := t\<rparr>) ''rainfall in A''
     ''gov_datasets'' None None = index_response"
  by (simp add: ranked_def index_answer_def demo_services_def pipeline_def)

text \<open>
  Claim C3 on the sample index, whose response has the distances 0.1, 0.25, 0.6: with
  the threshold 0.7 the first two results are returned, with 0.2 all three.
\<close>

theorem retrieval_threshold_filter_witness:
  "distances (retrieved demo_services pipeline ''rainfall in A'' ''gov_datasets'' None None)
     = [1 / 10, 1 / 4]
   \<and> ids (retrieved demo_services pipeline ''rainfall in A'' ''gov_datasets'' None None)
     = [''doc_0'', ''doc_1'']
   \<and> sorted (distances (ranked demo_services pipeline ''rainfall in A'' ''gov_datasets'' None None))
   \<and> (1 / 5 :: real) \<le> similarity_threshold pipeline
   \<and> retrieved demo_services (pipeline\<lparr>similarity_threshold := 1 / 5\<rparr>) ''rainfall in A''
        ''gov_datasets'' None None = index_response
   \<and> retrieved demo_services pipeline ''rainfall in A'' ''gov_datasets'' None None
       = surviving (similar (7 / 10)) index_response"
proof -
  note th = retrieval_threshold_filter [OF demo_aligned, of pipeline "''rainfall in A''"
      "''gov_datasets''" None None "1 / 5"]
  have t: "similarity_threshold pipeline = 7 / 10" by (simp add: pipeline_def)
  have r: "ranked demo_services pipeline ''rainfall in A'' ''gov_datasets'' None None
      = index_response"
    using demo_ranked [of "7 / 10"] by (simp add: pipeline_def)
  have s: "surviving (similar (7 / 10)) index_response
      = \<lparr>documents = [''Rainfall in A was 800 mm in 2020'', ''Yield in A was 2720 kg in 2020''],
         metadatas = [[(''dataset'', ''rainfall'')], [(''dataset'', ''yields'')]],
         distances = [1 / 10, 1 / 4],
         ids = [''doc_0'', ''doc_1'']\<rparr>"
    by (simp add: surviving_def index_response_def similar_def)
  have low: "retrieved demo_services (pipeline\<lparr>similarity_threshold := 1 / 5\<rparr>) ''rainfall in A''
        ''gov_datasets'' None None = index_response"
    using retrieval_threshold_filter [OF demo_aligned,
        of "pipeline\<lparr>similarity_threshold := 1 / 5\<rparr>" "''rainfall in A''" "''gov_datasets''"
          None None "1 / 5"]
    by (simp add: demo_ranked) (simp add: surviving_def index_response_def similar_def)
  have so: "sorted (distances index_response)" by (simp add: index_response_def)
  from th show ?thesis
    by (simp add: t r s low so)
qed

lemma filter_results_lengths:
  assumes "filter_results t i ds raw acc = Inr r"
    and "length (documents acc) = length (distances acc)"
  shows "length (documents r) = length (distances r)"
  using assms
proof (induction ds arbitrary: i acc)
  case Nil
  then show ?case by simp
next
  case (Cons d ds)
  show ?case
  proof (cases "t \<le> 1 - d")
    case True
    with Cons.prems(1) have ok: "i < length (documents raw) \<and> i < length (metadatas raw)
        \<and> i < length (ids raw)"
      by (simp add: Let_def split: if_splits)
    with True Cons.prems(1) have
      "filter_results t (Suc i) ds raw
         \<lparr>documents = documents acc @ [documents raw ! i],
          metadatas = metadatas acc @ [metadatas raw ! i],
          distances = distances acc @ [d],
          ids = ids acc @ [ids raw ! i]\<rparr> = Inr r"
      by (simp add: Let_def)
    from Cons.IH [OF this] Cons.prems(2) show ?thesis by simp
  next
    case False
    with Cons.prems(1) have "filter_results t (Suc i) ds raw acc = Inr r"
      by (simp add: Let_def)
    from Cons.IH [OF this Cons.prems(2)] show ?thesis .
  qed
qed

lemma search_lengths:
  assumes "search S self c q n f = Inr r"
  shows "length (documents r) = length (distances r)"
proof -
  from assms obtain raw where
    "filter_results (similarity_threshold self) 0 (distances raw) raw no_results = Inr r"
    by (auto simp: search_def Let_def split: sum.splits list.splits)
  from filter_results_lengths [OF this] show ?thesis by (simp add: no_results_def)
qed

lemma query_outcome:
  "\<exists>r self'. query S self q cn n f = Inr (r, self') \<and> length (documents r) = length (distances r)"
proof (cases "map_of (collections self) cn")
  case (Some c)
  show ?thesis
  proof (cases "search S self c q n f")
    case (Inl e)
    with Some show ?thesis by (simp add: query_def no_results_def)
  next
    case (Inr r)
    with Some search_lengths [OF Inr] show ?thesis by (simp add: query_def)
  qed
next
  case None
  show ?thesis
  proof (cases "create_collection S self cn")
    case (Inl e)
    with None show ?thesis by (simp add: query_def no_results_def)
  next
    case (Inr p)
    obtain c self' where p: "p = (c, self')" by (cases p)
    show ?thesis
    proof (cases "search S self' c q n f")
      case (Inl e)
      with None Inr p show ?thesis by (simp add: query_def no_results_def)
    next
      case r: (Inr r)
      with None Inr p search_lengths [OF r] show ?thesis by (simp add: query_def)
    qed
  qed
qed

lemma confidence_of_rag_query:
  "confidence_of (rag_query S self question collection_name include_reasoning n_results)
     = Some (if distances (retrieved S self question collection_name n_results None) = [] then 0
             else 1 - sum_list (distances (retrieved S self question collection_name n_results None))
                      / real (length (distances
                                 (retrieved S self question collection_name n_results None))))"
proof -
  from query_outcome [of S self question collection_name n_results None]
  obtain r self' where q: "query S self question collection_name n_results None = Inr (r, self')"
    and l: "length (documents r) = length (distances r)" by blast
  have ret: "retrieved S self question collection_name n_results None = r"
    by (simp add: retrieved_def q)
  show ?thesis
  proof (cases "documents r = []")
    case True
    with l have "distances r = []" by simp
    with True show ?thesis
      by (simp add: confidence_of_def rag_query_def q ret)
  next
    case False
    with l have "distances r \<noteq> []" by auto
    with False show ?thesis
      by (simp add: confidence_of_def rag_query_def q ret generate_response_def Let_def
          split: sum.split)
  qed
qed

text \<open>
  Claim C5. For every question, \<^verbatim>\<open>rag_query\<close> returns a result, and its confidence is
  \<open>0.0\<close> when retrieval (after the threshold filter) returned nothing, and otherwise one
  minus the mean of the distances of the retrieved results.
\<close>

theorem rag_query_confidence:
  "confidence_of (rag_query S self question collection_name include_reasoning n_results)
     = Some (if distances (retrieved S self question collection_name n_results None) = [] then 0
             else 1 - sum_list (distances (retrieved S self question collection_name n_results None))
                      / real (length (distances
                                 (retrieved S self question collection_name n_results None))))"
  by (rule confidence_of_rag_query)

text \<open>
  With the sample index two results survive, and the confidence is \<open>1 - (0.1 + 0.25) / 2\<close>.
  A collection created empty on demand gives no results and the confidence \<open>0.0\<close>.
\<close>

lemma rag_query_confidence_example:
  "confidence_of (rag_query demo_services pipeline ''rainfall in A'' ''gov_datasets'' True None)
     = Some (33 / 40)"
proof -
  have d: "distances (retrieved demo_services pipeline ''rainfall in A'' ''gov_datasets'' None None)
     = [1 / 10, 1 / 4]"
    using retrieved_aligned [OF demo_aligned, of pipeline "''rainfall in A''" "''gov_datasets''"
        None None] demo_ranked [of "7 / 10"]
    by (simp add: pipeline_def surviving_def index_response_def similar_def)
  show ?thesis
    unfolding confidence_of_rag_query d by simp
qed

lemma rag_query_empty_collection:
  assumes "collection_query S c e k None = Inr no_results"
    and "get_or_create_collection S collection_name = Inr c"
    and "embedder_encode S [question] = Inr [e]"
    and "k = top_k self"
  shows "confidence_of (rag_query S (self\<lparr>collections := []\<rparr>) question collection_name True None)
     = Some 0"
proof -
  have "retrieved S (self\<lparr>collections := []\<rparr>) question collection_name None None = no_results"
    using assms
    by (simp add: retrieved_def query_def create_collection_def search_def no_results_def)
  then show ?thesis
    unfolding confidence_of_rag_query by (simp add: no_results_def)
qed

text \<open>
  Claim C6, as the code has it. When the language-model service raises,
  \<^verbatim>\<open>generate_response\<close> raises nothing and returns, as its answer text, the string
  \<^verbatim>\<open>Error generating response: \<close> followed by the message of the exception.
\<close>

theorem generate_response_failure:
  assumes "text_generation S (prompt_for question ctx include_reasoning) max_tokens temperature
             = Inl e"
  shows "generate_response S question ctx max_tokens temperature include_reasoning
           = Inr (''Error generating response: '' @ str_error e)"
  using assms by (simp add: generate_response_def)

text \<open>
  Claim C6 as stated asks for a tagged failure that can be told from an answer. The result
  for a client that times out is the very value returned for a client that generates the
  same words.
\<close>

theorem generate_response_failure_counterexample:
  "text_generation failing_llm (prompt_for ''Did rainfall rise?'' ''no data'' True) 1024 (7 / 10)
     = Inl (ServiceError ''timeout'')
   \<and> generate_response failing_llm ''Did rainfall rise?'' ''no data'' 1024 (7 / 10) True
       = Inr ''Error generating response: timeout''
   \<and> text_generation echoing_llm (prompt_for ''Did rainfall rise?'' ''no data'' True) 1024 (7 / 10)
     = Inr ''Error generating response: timeout''
   \<and> generate_response echoing_llm ''Did rainfall rise?'' ''no data'' 1024 (7 / 10) True
       = generate_response failing_llm ''Did rainfall rise?'' ''no data'' 1024 (7 / 10) True"
  by (simp add: generate_response_def failing_llm_def echoing_llm_def demo_services_def
      strip_def is_space_def)

text \<open>
  Claim C6 on the client that times out.
\<close>

theorem generate_response_failure_witness:
  "text_generation failing_llm (prompt_for ''Did rainfall rise?'' ''no data'' False) 512 (1 / 2)
     = Inl (ServiceError ''timeout'')
   \<and> generate_response failing_llm ''Did rainfall rise?'' ''no data'' 512 (1 / 2) False
       = Inr ''Error generating response: timeout''"
proof -
  have f: "text_generation failing_llm (prompt_for ''Did rainfall rise?'' ''no data'' False) 512
      (1 / 2) = Inl (ServiceError ''timeout'')"
    by (simp add: failing_llm_def demo_services_def)
  from generate_response_failure [OF f] f show ?thesis by simp
qed

end
